theory Spec2Isabelle
  imports Main "HOL-Library.Sublist" "HOL-Library.Multiset"
begin

section \<open>Text operations of the host language\<close>

text \<open>
  Strings are lists of characters. Case folding is modelled on the ASCII letters, which
  is what \<^verbatim>\<open>str.lower()\<close> and a case-insensitive regular expression do on ASCII text;
  every other character is left as it is.
\<close>

datatype py_error = KeyError | ValueError | ZeroDivisionError | OtherError

definition lower_char :: "char \<Rightarrow> char" where
  "lower_char c =
     (case map_of (zip ''ABCDEFGHIJKLMNOPQRSTUVWXYZ'' ''abcdefghijklmnopqrstuvwxyz'') c of
        Some d \<Rightarrow> d
      | None \<Rightarrow> c)"

definition lower :: "string \<Rightarrow> string" where
  "lower s = map lower_char s"

text \<open>\<^verbatim>\<open>' '.join(words)\<close>\<close>

fun join_spaces :: "string list \<Rightarrow> string" where
  "join_spaces [] = []"
| "join_spaces [w] = w"
| "join_spaces (w # ws) = w @ '' '' @ join_spaces ws"

text \<open>\<^verbatim>\<open>s.replace(' ', '_')\<close>\<close>

definition replace_spaces :: "string \<Rightarrow> string" where
  "replace_spaces s = map (\<lambda>c. if c = CHR '' '' then CHR ''_'' else c) s"

text \<open>\<^verbatim>\<open>k in s\<close> on strings: \<open>k\<close> occurs in \<open>s\<close> as a contiguous run.\<close>

fun starts_with :: "string \<Rightarrow> string \<Rightarrow> bool" where
  "starts_with [] s = True"
| "starts_with (k # ks) [] = False"
| "starts_with (k # ks) (c # cs) = (k = c \<and> starts_with ks cs)"

fun py_in :: "string \<Rightarrow> string \<Rightarrow> bool" where
  "py_in k [] = (k = [])"
| "py_in k (c # cs) = (starts_with k (c # cs) \<or> py_in k cs)"

section \<open>Configuration\<close>

text \<open>
  \<^verbatim>\<open>config.json\<close>. A key that the code reads with \<^verbatim>\<open>[...]\<close> and that may be missing
  is an option (reading \<open>None\<close> raises \<^verbatim>\<open>KeyError\<close>); a key read with \<^verbatim>\<open>.get\<close> or
  tested with \<^verbatim>\<open>in\<close> is an option with the code's default.
\<close>

record user_profile =
  technical_skills :: "string list option"
  core_competencies :: "string list option"

record search_criteria =
  locations :: "string list"
  blacklisted_companies :: "string list option"
  min_match_score :: "int option"

record config =
  profile :: user_profile
  criteria :: search_criteria

section \<open>Match scorer\<close>

text \<open>
  Lines 209--216 of the scorer hand the two texts to the TF-IDF vectorizer of an external
  library and turn the cosine similarity, a floating-point number, into
  \<^verbatim>\<open>base_score = int(similarity * 100)\<close>. That step is a parameter of the model: a function
  from the two texts to the integer \<open>base_score\<close>, or to the exception the library raised
  (\<open>ValueError\<close> when the vocabulary is empty).
\<close>

type_synonym vectorizer = "string \<Rightarrow> string \<Rightarrow> py_error + int"

definition bonus_keywords :: "string list" where
  "bonus_keywords =
     [''business analyst'', ''requirements'', ''crm'', ''sql'', ''senior'',
      ''stakeholder'', ''process'', ''analysis'', ''healthcare'', ''remote'']"

text \<open>\<^verbatim>\<open>sum(5 for keyword in bonus_keywords if keyword in job_text)\<close>\<close>

definition bonus_score :: "string \<Rightarrow> int" where
  "bonus_score job_text = 5 * int (length (filter (\<lambda>keyword. py_in keyword job_text) bonus_keywords))"

text \<open>
  \<^verbatim>\<open>min(int((matches / len(user_skills)) * 100), 100)\<close>. The division raises on an empty
  skill list. The quotient is a floating-point number in the source; the model truncates
  the exact quotient, which has the same bounds.
\<close>

definition simple_keyword_match :: "string \<Rightarrow> string list \<Rightarrow> py_error + int" where
  "simple_keyword_match job_text user_skills =
     (let job_text_lower = lower job_text;
          matches = length (filter (\<lambda>skill. py_in (lower skill) job_text_lower) user_skills)
      in if length user_skills = 0 then Inl ZeroDivisionError
         else Inr (min ((int matches * 100) div int (length user_skills)) 100))"

text \<open>The body of the outer \<^verbatim>\<open>try\<close> of \<^verbatim>\<open>calculate_job_match_score\<close>.\<close>

definition score_body :: "vectorizer \<Rightarrow> config \<Rightarrow> string \<Rightarrow> string \<Rightarrow> py_error + int" where
  "score_body tfidf cfg job_description job_title =
     (case technical_skills (profile cfg) of
        None \<Rightarrow> Inl KeyError
      | Some ts \<Rightarrow>
         (case core_competencies (profile cfg) of
            None \<Rightarrow> Inl KeyError
          | Some cc \<Rightarrow>
             (let user_skills = ts @ cc;
                  user_skill_text = lower (join_spaces user_skills);
                  job_text = lower (job_title @ '' '' @ job_description)
              in case tfidf user_skill_text job_text of
                   Inr base_score \<Rightarrow> Inr (min (base_score + bonus_score job_text) 100)
                 | Inl ValueError \<Rightarrow> simple_keyword_match job_text user_skills
                 | Inl e \<Rightarrow> Inl e)))"

text \<open>
  The whole function: \<^verbatim>\<open>except Exception\<close> logs and returns 0. The result is kept as a
  sum so that "does not raise" is a statement about the value.
\<close>

definition calculate_job_match_score ::
    "vectorizer \<Rightarrow> config \<Rightarrow> string \<Rightarrow> string \<Rightarrow> py_error + int" where
  "calculate_job_match_score tfidf cfg job_description job_title =
     (case score_body tfidf cfg job_description job_title of
        Inl e \<Rightarrow> Inr 0
      | Inr s \<Rightarrow> Inr s)"

text \<open>
  A vectorizer for worked examples, holding what the library computes on five pairs of
  texts. With two texts, the smoothed inverse document frequency of a term found in one
  of them is \<open>1 + ln (3/2)\<close>, about 1.405, and that of a term found in both is 1; the
  rows are normalised and compared by their cosine. A word of one letter is not a token.
  \<^item> \<^verbatim>\<open>python java\<close> against \<^verbatim>\<open>python \<close>: cosine \<open>1 / sqrt (1 + 1.405\<^sup>2)\<close>, about 0.5797,
    \<open>base_score\<close> 57;
  \<^item> \<^verbatim>\<open>python java\<close> against \<^verbatim>\<open>python remote\<close>: cosine \<open>1 / (1 + 1.405\<^sup>2)\<close>, about
    0.3361, \<open>base_score\<close> 33;
  \<^item> \<^verbatim>\<open>sql\<close> against \<^verbatim>\<open>analyst \<close>: no common term, \<open>base_score\<close> 0;
  \<^item> \<^verbatim>\<open>sql\<close> against \<^verbatim>\<open>analyst sql\<close>: cosine about 0.5797, \<open>base_score\<close> 57;
  \<^item> \<^verbatim>\<open>c r\<close> against \<^verbatim>\<open>c sql\<close>: the skill text has no token, its row is zero and so is
    the cosine, \<open>base_score\<close> 0.
  On every other pair it raises \<open>ValueError\<close>, as the library does when no token is
  left in either text; the two such pairs used below are the empty skill text against
  \<^verbatim>\<open>it \<close>, whose only word is a stop word, and \<^verbatim>\<open>c r\<close> against \<^verbatim>\<open>c \<close>.
\<close>

definition example_vectorizer :: vectorizer where
  "example_vectorizer user_skill_text job_text =
     (case map_of [((''python java'', ''python ''), 57), ((''python java'', ''python remote''), 33),
                   ((''sql'', ''analyst ''), 0), ((''sql'', ''analyst sql''), 57),
                   ((''c r'', ''c sql''), 0)]
                  (user_skill_text, job_text) of
        Some base_score \<Rightarrow> Inr base_score
      | None \<Rightarrow> Inl ValueError)"

definition letters_profile :: config where
  "letters_profile =
     \<lparr>profile = \<lparr>technical_skills = Some [''C'', ''R''], core_competencies = Some []\<rparr>,
      criteria = \<lparr>locations = [''Remote''], blacklisted_companies = None,
                  min_match_score = None\<rparr>\<rparr>"

definition sql_profile :: config where
  "sql_profile =
     \<lparr>profile = \<lparr>technical_skills = Some [''SQL''], core_competencies = Some []\<rparr>,
      criteria = \<lparr>locations = [''Remote''], blacklisted_companies = None,
                  min_match_score = None\<rparr>\<rparr>"

definition example_profile :: config where
  "example_profile =
     \<lparr>profile = \<lparr>technical_skills = Some [''Python''], core_competencies = Some [''Java'']\<rparr>,
      criteria = \<lparr>locations = [''Remote'', ''Warsaw''], blacklisted_companies = Some [''Acme''],
                  min_match_score = Some 70\<rparr>\<rparr>"

definition empty_profile :: config where
  "empty_profile =
     \<lparr>profile = \<lparr>technical_skills = Some [], core_competencies = Some []\<rparr>,
      criteria = \<lparr>locations = [''Remote''], blacklisted_companies = None,
                  min_match_score = None\<rparr>\<rparr>"

section \<open>Job frames\<close>

text \<open>
  A date is a day number: the store keeps dates as ISO text, whose order is the order of
  the days. A missing cell (NaN) is \<open>None\<close>. A frame records which of the optional
  columns it has, since the code tests for them.
\<close>

type_synonym date = int

record raw_job =
  raw_title :: "string option"
  raw_company :: "string option"
  raw_location :: "string option"
  raw_salary :: "string option"
  raw_job_url :: "string option"
  raw_description :: "string option"
  raw_date_posted :: "date option"

record job =
  title :: string
  company :: string
  location :: "string option"
  salary :: "string option"
  salary_clean :: "string option"
  job_url :: "string option"
  description :: "string option"
  date_posted :: "date option"
  match_score :: "int option"

record 'r frame =
  salary_col :: bool
  location_col :: bool
  description_col :: bool
  rows :: "'r list"

subsection \<open>Cleaning\<close>

text \<open>
  \<^verbatim>\<open>s.replace(pat, rep)\<close>, left to right without overlaps, on the text itself or
  ignoring case (\<open>pat\<close> is then given in lower case). The counter skips the rest of a
  run that has just been replaced.
\<close>

fun replace_from :: "bool \<Rightarrow> string \<Rightarrow> string \<Rightarrow> nat \<Rightarrow> string \<Rightarrow> string" where
  "replace_from ci pat rep skip [] = []"
| "replace_from ci pat rep (Suc skip) (c # cs) = replace_from ci pat rep skip cs"
| "replace_from ci pat rep 0 (c # cs) =
     (if pat \<noteq> [] \<and> starts_with pat (if ci then lower (c # cs) else c # cs)
      then rep @ replace_from ci pat rep (length pat - 1) cs
      else c # replace_from ci pat rep 0 cs)"

definition is_space :: "char \<Rightarrow> bool" where
  "is_space c = (c \<in> set [CHR '' '', CHR 0x09, CHR 0x0A, CHR 0x0B, CHR 0x0C, CHR 0x0D])"

definition strip :: "string \<Rightarrow> string" where
  "strip s = rev (dropWhile is_space (rev (dropWhile is_space s)))"

text \<open>\<^verbatim>\<open>drop_duplicates(subset=['title', 'company'], keep='first')\<close>\<close>

fun drop_duplicates :: "(string option \<times> string option) list \<Rightarrow> raw_job list \<Rightarrow> raw_job list" where
  "drop_duplicates seen [] = []"
| "drop_duplicates seen (r # rs) =
     (if (raw_title r, raw_company r) \<in> set seen then drop_duplicates seen rs
      else r # drop_duplicates ((raw_title r, raw_company r) # seen) rs)"

text \<open>\<^verbatim>\<open>dropna(subset=['title', 'company'])\<close>, which also fixes the type of the two fields.\<close>

fun dropna :: "bool \<Rightarrow> bool \<Rightarrow> raw_job list \<Rightarrow> job list" where
  "dropna sal loc [] = []"
| "dropna sal loc (r # rs) =
     (case (raw_title r, raw_company r) of
        (Some t, Some c) \<Rightarrow>
          \<lparr>title = t, company = c,
           location = (if loc then map_option (replace_from True ''remote'' ''Remote'' 0) (raw_location r)
                       else raw_location r),
           salary = raw_salary r,
           salary_clean = (if sal
                           then map_option (\<lambda>x. strip (replace_from False '','' [] 0
                                                  (replace_from False ''PLN'' [] 0 x))) (raw_salary r)
                           else None),
           job_url = raw_job_url r, description = raw_description r,
           date_posted = raw_date_posted r, match_score = None\<rparr> # dropna sal loc rs
      | _ \<Rightarrow> dropna sal loc rs)"

definition clean_job_data :: "raw_job frame \<Rightarrow> job frame" where
  "clean_job_data jobs_df =
     \<lparr>salary_col = salary_col jobs_df, location_col = location_col jobs_df,
      description_col = description_col jobs_df,
      rows = dropna (salary_col jobs_df) (location_col jobs_df) (drop_duplicates [] (rows jobs_df))\<rparr>"

section \<open>Filter and ranking\<close>

text \<open>
  \<^verbatim>\<open>series.str.contains('|'.join(words), case=False, na=False)\<close> for words without
  regular-expression operators: the joined pattern is an alternation of the words, and
  the empty pattern joined from an empty list is found in every string. A missing cell
  gives \<open>False\<close>.
\<close>

definition contains_any :: "string list \<Rightarrow> string \<Rightarrow> bool" where
  "contains_any words s = (if words = [] then True else list_ex (\<lambda>w. py_in (lower w) (lower s)) words)"

definition location_matches :: "string list \<Rightarrow> job \<Rightarrow> bool" where
  "location_matches words j = (case location j of None \<Rightarrow> False | Some l \<Rightarrow> contains_any words l)"

text \<open>\<^verbatim>\<open>str(row.get('description', ''))\<close>: a missing cell prints as \<^verbatim>\<open>nan\<close>.\<close>

definition cell_str :: "string option \<Rightarrow> string" where
  "cell_str c = (case c of None \<Rightarrow> ''nan'' | Some s \<Rightarrow> s)"

fun score_rows :: "vectorizer \<Rightarrow> config \<Rightarrow> job list \<Rightarrow> py_error + job list" where
  "score_rows tfidf cfg [] = Inr []"
| "score_rows tfidf cfg (j # js) =
     (case calculate_job_match_score tfidf cfg (cell_str (description j)) (title j) of
        Inl e \<Rightarrow> Inl e
      | Inr s \<Rightarrow>
         (case score_rows tfidf cfg js of
            Inl e \<Rightarrow> Inl e
          | Inr js' \<Rightarrow> Inr (j\<lparr>match_score := Some s\<rparr> # js')))"

text \<open>\<^verbatim>\<open>job.get('match_score', 0)\<close>\<close>

definition score_of :: "job \<Rightarrow> int" where
  "score_of j = (case match_score j of None \<Rightarrow> 0 | Some s \<Rightarrow> s)"

text \<open>
  \<^verbatim>\<open>sort_values('match_score', ascending=False)\<close>, with the library's default sort, which
  is not stable. The rows come out by descending score; the order among rows of equal
  score is the library's. The library is handed the column alone, so what it decides is
  a ranking of the positions computed from the column, and that ranking is a parameter
  of the model: rows of equal score come out by ascending rank, and in the order of the
  input where the ranks are equal as well.
\<close>

type_synonym tie_order = "int list \<Rightarrow> nat \<Rightarrow> nat"

definition sort_values_desc :: "tie_order \<Rightarrow> job list \<Rightarrow> job list" where
  "sort_values_desc tie js =
     map snd (sort_key (\<lambda>p. - score_of (snd p))
               (sort_key (\<lambda>p. tie (map score_of js) (fst p)) (enumerate 0 js)))"

definition filter_jobs :: "tie_order \<Rightarrow> vectorizer \<Rightarrow> config \<Rightarrow> job frame \<Rightarrow> py_error + job frame" where
  "filter_jobs tie tfidf cfg jobs_df =
     (if rows jobs_df = [] then Inr jobs_df
      else
        let by_location =
              (if location_col jobs_df
               then filter (location_matches (locations (criteria cfg))) (rows jobs_df)
               else rows jobs_df);
            not_blacklisted =
              (case blacklisted_companies (criteria cfg) of
                 None \<Rightarrow> by_location
               | Some blacklist \<Rightarrow> filter (\<lambda>j. \<not> contains_any blacklist (company j)) by_location);
            scored =
              (if description_col jobs_df then score_rows tfidf cfg not_blacklisted
               else Inr (map (\<lambda>j. j\<lparr>match_score := Some 50\<rparr>) not_blacklisted))
        in case scored of
             Inl e \<Rightarrow> Inl e
           | Inr js \<Rightarrow>
              (let min_score = (case min_match_score (criteria cfg) of None \<Rightarrow> 60 | Some m \<Rightarrow> m)
               in Inr (jobs_df\<lparr>rows := sort_values_desc tie (filter (\<lambda>j. min_score \<le> score_of j) js)\<rparr>)))"

section \<open>Job store\<close>

text \<open>
  Table \<^verbatim>\<open>applications\<close>, its rows in the order of insertion. \<open>app_id\<close> is the
  integer primary key, \<open>job_id\<close> the unique text key.
\<close>

record application =
  app_id :: nat
  job_id :: string
  app_title :: string
  app_company :: string
  app_location :: "string option"
  salary_range :: "string option"
  app_job_url :: "string option"
  app_description :: "string option"
  requirements :: "string option"
  application_date :: "date option"
  status :: string
  app_match_score :: int
  cv_version :: "string option"
  cover_letter_path :: "string option"
  follow_up_date :: "date option"
  response_date :: "date option"
  interview_date :: "date option"
  app_notes :: "string option"
  created_at :: int

type_synonym applications = "application list"

text \<open>The key built on line 295: no change of case, and only the space is replaced.\<close>

definition make_job_id :: "job \<Rightarrow> string" where
  "make_job_id j = replace_spaces (take 50 (title j) @ ''_'' @ take 30 (company j))"

text \<open>
  The automatic key of a new row. The model takes one more than the largest key in use;
  the store can skip keys (an ignored insert spends one). Either way the keys of the
  table stay distinct, and nothing below depends on their values.
\<close>

definition next_id :: "applications \<Rightarrow> nat" where
  "next_id tbl = Suc (fold max (map app_id tbl) 0)"

text \<open>
  \<^verbatim>\<open>INSERT OR IGNORE\<close>: a row whose \<open>job_id\<close> is already stored is skipped. The second
  component is the number of rows the statement changed. An empty cell is stored as
  \<open>None\<close>; for a column that the frame lacks altogether the code stores the empty
  string, which the model does not tell apart from \<open>None\<close>.
\<close>

definition insert_or_ignore :: "date \<Rightarrow> int \<Rightarrow> job \<Rightarrow> applications \<Rightarrow> applications \<times> nat" where
  "insert_or_ignore today now j tbl =
     (if make_job_id j \<in> set (map job_id tbl) then (tbl, 0)
      else (tbl @ [\<lparr>app_id = next_id tbl, job_id = make_job_id j, app_title = title j,
                    app_company = company j, app_location = location j, salary_range = salary j,
                    app_job_url = job_url j, app_description = description j, requirements = None,
                    application_date = Some today, status = ''found'', app_match_score = score_of j,
                    cv_version = None, cover_letter_path = None, follow_up_date = None,
                    response_date = None, interview_date = None, app_notes = None,
                    created_at = now\<rparr>], 1))"

text \<open>
  The loop of \<^verbatim>\<open>save_jobs_to_database\<close>. Its state is the table, the connection's
  \<^verbatim>\<open>total_changes\<close> and \<^verbatim>\<open>new_jobs_count\<close>.
\<close>

fun save_loop :: "date \<Rightarrow> int \<Rightarrow> job list \<Rightarrow> applications \<times> nat \<times> nat \<Rightarrow> applications \<times> nat \<times> nat" where
  "save_loop today now [] st = st"
| "save_loop today now (j # js) (tbl, total_changes, new_jobs_count) =
     (case insert_or_ignore today now j tbl of
        (tbl', changed) \<Rightarrow>
          save_loop today now js
            (tbl', total_changes + changed,
             if 0 < total_changes + changed then new_jobs_count + 1 else new_jobs_count))"

text \<open>An empty batch returns at once, without a count; a fresh connection has changed nothing.\<close>

definition save_jobs_to_database :: "date \<Rightarrow> int \<Rightarrow> job list \<Rightarrow> applications \<Rightarrow> applications \<times> nat option" where
  "save_jobs_to_database today now jobs tbl =
     (if jobs = [] then (tbl, None)
      else case save_loop today now jobs (tbl, 0, 0) of
             (tbl', total_changes, new_jobs_count) \<Rightarrow> (tbl', Some new_jobs_count))"

text \<open>
  One ingestion, the first half of \<^verbatim>\<open>run_daily_search\<close>: the cleaned frame is filtered,
  scored, ranked and saved. The high-priority pass that follows it is in the next section.
\<close>

definition ingest ::
    "tie_order \<Rightarrow> vectorizer \<Rightarrow> config \<Rightarrow> date \<Rightarrow> int \<Rightarrow> raw_job frame \<Rightarrow> applications \<Rightarrow> py_error + applications" where
  "ingest tie tfidf cfg today now raw tbl =
     (case filter_jobs tie tfidf cfg (clean_job_data raw) of
        Inl e \<Rightarrow> Inl e
      | Inr filtered_jobs \<Rightarrow> Inr (fst (save_jobs_to_database today now (rows filtered_jobs) tbl)))"

section \<open>Workflow trigger\<close>

text \<open>\<^verbatim>\<open>UPDATE applications SET ... WHERE id = ?\<close>\<close>

definition update_where_id :: "nat \<Rightarrow> (application \<Rightarrow> application) \<Rightarrow> applications \<Rightarrow> applications" where
  "update_where_id i f tbl = map (\<lambda>r. if app_id r = i then f r else r) tbl"

text \<open>
  \<^verbatim>\<open>WHERE status = 'found' AND match_score >= 85 ORDER BY match_score DESC,
  created_at DESC LIMIT 10\<close>; rows equal in both keys come in the order of the table.
\<close>

definition get_high_priority_jobs :: "applications \<Rightarrow> application list" where
  "get_high_priority_jobs tbl =
     take 10 (sort_key (\<lambda>r. - app_match_score r) (sort_key (\<lambda>r. - created_at r)
       (filter (\<lambda>r. status r = ''found'' \<and> 85 \<le> app_match_score r) tbl)))"

text \<open>
  The two generation collaborators return a path, or \<open>None\<close> after a logged failure.
  Their outcome depends on the outside world, so it is given per job.
\<close>

definition mark_ready :: "string option \<Rightarrow> string option \<Rightarrow> application \<Rightarrow> application" where
  "mark_ready cv_path letter_path r =
     r\<lparr>status := ''ready_to_apply'', cv_version := cv_path, cover_letter_path := letter_path\<rparr>"

definition process_high_priority_jobs ::
    "(application \<Rightarrow> string option) \<Rightarrow> (application \<Rightarrow> string option) \<Rightarrow> applications \<Rightarrow> applications" where
  "process_high_priority_jobs optimize_cv_for_job generate_cover_letter tbl =
     fold (\<lambda>job. update_where_id (app_id job)
                   (mark_ready (optimize_cv_for_job job) (generate_cover_letter job)))
          (get_high_priority_jobs tbl) tbl"

text \<open>The selection of \<^verbatim>\<open>check_follow_ups\<close>; a row without application date is not selected.\<close>

definition needs_follow_up :: "date \<Rightarrow> application \<Rightarrow> bool" where
  "needs_follow_up today r =
     ((case application_date r of None \<Rightarrow> False | Some d \<Rightarrow> d \<le> today - 7)
      \<and> status r = ''applied'' \<and> response_date r = None)"

definition mark_follow_up :: "date \<Rightarrow> application \<Rightarrow> application" where
  "mark_follow_up today r = r\<lparr>status := ''follow_up_needed'', follow_up_date := Some today\<rparr>"

definition check_follow_ups :: "date \<Rightarrow> applications \<Rightarrow> applications" where
  "check_follow_ups today tbl =
     fold (\<lambda>job. update_where_id (app_id job) (mark_follow_up today))
          (filter (needs_follow_up today) tbl) tbl"

section \<open>Stored rows for worked examples\<close>

definition stored :: "nat \<Rightarrow> string \<Rightarrow> string \<Rightarrow> int \<Rightarrow> date option \<Rightarrow> date option \<Rightarrow> application" where
  "stored i key st score applied responded =
     \<lparr>app_id = i, job_id = key, app_title = ''Senior Business Analyst'', app_company = ''Globex'',
      app_location = Some ''Warsaw'', salary_range = None, app_job_url = None,
      app_description = None, requirements = None, application_date = applied, status = st,
      app_match_score = score, cv_version = None, cover_letter_path = None,
      follow_up_date = None, response_date = responded, interview_date = None,
      app_notes = None, created_at = 0\<rparr>"

text \<open>A generation call that fails, and one that returns a path.\<close>

definition generation_fails :: "application \<Rightarrow> string option" where
  "generation_fails job = None"

definition letter_written :: "application \<Rightarrow> string option" where
  "letter_written job = Some ''cover_letters/cover_letter_Globex.txt''"

definition sweep_example :: applications where
  "sweep_example =
     [stored 1 ''Analyst_Globex'' ''applied'' 90 (Some 10) None,
      stored 2 ''Analyst_Initech'' ''applied'' 90 (Some 10) (Some 15),
      stored 3 ''Analyst_Hooli'' ''applied'' 80 (Some 18) None]"

definition priority_example :: applications where
  "priority_example =
     [stored 1 ''Analyst_Globex'' ''found'' 90 (Some 10) None,
      stored 2 ''Analyst_Initech'' ''found'' 70 (Some 10) None]"

definition posting :: "string \<Rightarrow> string \<Rightarrow> string \<Rightarrow> date \<Rightarrow> raw_job" where
  "posting t c d p =
     \<lparr>raw_title = Some t, raw_company = Some c, raw_location = Some ''Remote'', raw_salary = None,
      raw_job_url = None, raw_description = Some d, raw_date_posted = Some p\<rparr>"

definition found_frame :: "raw_job list \<Rightarrow> raw_job frame" where
  "found_frame rs = \<lparr>salary_col = False, location_col = True, description_col = True, rows = rs\<rparr>"

definition scored_job :: "string \<Rightarrow> string \<Rightarrow> int \<Rightarrow> job" where
  "scored_job t c s =
     \<lparr>title = t, company = c, location = Some ''Remote'', salary = None, salary_clean = None,
      job_url = None, description = None, date_posted = None, match_score = Some s\<rparr>"

definition two_analysts :: "raw_job frame" where
  "two_analysts = found_frame [posting ''Analyst'' ''Acme'' ''SQL'' 1, posting ''analyst'' ''Acme'' ''SQL'' 2]"

definition candidate :: "string \<Rightarrow> string \<Rightarrow> string \<Rightarrow> string \<Rightarrow> date \<Rightarrow> job" where
  "candidate t c l d p =
     \<lparr>title = t, company = c, location = Some l, salary = None, salary_clean = None,
      job_url = None, description = Some d, date_posted = Some p, match_score = None\<rparr>"

definition cleaned_frame :: "job list \<Rightarrow> job frame" where
  "cleaned_frame js = \<lparr>salary_col = False, location_col = True, description_col = True, rows = js\<rparr>"

text \<open>The criteria of \<open>sql_profile\<close> with the empty blacklist of the default configuration.\<close>

definition empty_blacklist_profile :: config where
  "empty_blacklist_profile =
     \<lparr>profile = \<lparr>technical_skills = Some [''SQL''], core_competencies = Some []\<rparr>,
      criteria = \<lparr>locations = [''Remote''], blacklisted_companies = Some [],
                  min_match_score = None\<rparr>\<rparr>"


text \<open>
  Two rankings of tied rows. A short column (up to 17 rows in the library's quicksort) is
  sorted by insertion, which leaves rows of equal score in the order of the input: every
  position has the same rank. The opposite ranking puts later positions first.
\<close>

definition insertion_order :: tie_order where
  "insertion_order column i = 0"




text \<open>A vectorizer that finds the same similarity, 0.60, for every pair of texts.\<close>

definition flat_vectorizer :: vectorizer where
  "flat_vectorizer user_skill_text job_text = Inr 60"

section \<open>Facts about the text operations\<close>

lemma starts_with_prefix: "starts_with k s = prefix k s"
  by (induction k s rule: starts_with.induct) auto

lemma py_in_sublist: "py_in k s = sublist k s"
  by (induction s) (simp_all add: sublist_Cons_right starts_with_prefix)

lemma py_in_append_right: "py_in k s \<Longrightarrow> py_in k (s @ e)"
  unfolding py_in_sublist sublist_def by (metis append.assoc)

lemma lower_append: "lower (a @ b) = lower a @ lower b"
  by (simp add: lower_def)

lemma length_filter_mono:
  "(\<And>x. x \<in> set xs \<Longrightarrow> P x \<Longrightarrow> Q x) \<Longrightarrow> length (filter P xs) \<le> length (filter Q xs)"
  by (induction xs) auto

section \<open>Facts about the scorer\<close>

lemma bonus_keywords_distinct: "distinct bonus_keywords"
  by (simp add: bonus_keywords_def)

lemma bonus_score_nonneg: "0 \<le> bonus_score t"
  by (simp add: bonus_score_def)

lemma bonus_score_le_50: "bonus_score t \<le> 50"
proof -
  have "length (filter (\<lambda>keyword. py_in keyword t) bonus_keywords) \<le> length bonus_keywords"
    by (rule length_filter_le)
  also have "length bonus_keywords = 10"
    by (simp add: bonus_keywords_def)
  finally show ?thesis
    by (simp add: bonus_score_def)
qed

lemma bonus_score_card:
  "bonus_score t = 5 * int (card {k \<in> set bonus_keywords. sublist k t})"
proof -
  have "length (filter (\<lambda>k. py_in k t) bonus_keywords) = card ({k. py_in k t} \<inter> set bonus_keywords)"
    by (rule distinct_length_filter [OF bonus_keywords_distinct])
  moreover have "{k. py_in k t} \<inter> set bonus_keywords = {k \<in> set bonus_keywords. sublist k t}"
    by (auto simp: py_in_sublist)
  ultimately show ?thesis
    by (simp add: bonus_score_def)
qed

lemma bonus_score_append: "bonus_score t \<le> bonus_score (t @ e)"
proof -
  have "length (filter (\<lambda>k. py_in k t) bonus_keywords)
          \<le> length (filter (\<lambda>k. py_in k (t @ e)) bonus_keywords)"
    by (rule length_filter_mono) (rule py_in_append_right)
  then show ?thesis
    by (simp add: bonus_score_def)
qed

lemma simple_keyword_match_range:
  assumes "simple_keyword_match job_text user_skills = Inr s"
  shows "0 \<le> s \<and> s \<le> 100"
proof -
  from assms have ne: "length user_skills \<noteq> 0"
    by (auto simp: simple_keyword_match_def Let_def split: if_splits)
  from assms ne have s: "s = min ((int (length (filter (\<lambda>skill. py_in (lower skill) (lower job_text)) user_skills)) * 100)
                        div int (length user_skills)) 100"
    by (simp add: simple_keyword_match_def Let_def)
  have "0 \<le> (int (length (filter (\<lambda>skill. py_in (lower skill) (lower job_text)) user_skills)) * 100)
                        div int (length user_skills)"
    by (rule pos_imp_zdiv_nonneg_iff [THEN iffD2]) (use ne in auto)
  with s show ?thesis by simp
qed

lemma simple_keyword_match_empty: "simple_keyword_match job_text [] = Inl ZeroDivisionError"
  by (simp add: simple_keyword_match_def)

lemma calculate_total:
  "calculate_job_match_score tfidf cfg d t =
     Inr (case score_body tfidf cfg d t of Inl e \<Rightarrow> 0 | Inr s \<Rightarrow> s)"
  by (simp add: calculate_job_match_score_def split: sum.splits)

lemma score_body_upper: "score_body tfidf cfg d t = Inr s \<Longrightarrow> s \<le> 100"
  by (auto simp: score_body_def Let_def split: option.splits sum.splits py_error.splits
           dest: simple_keyword_match_range)

lemma score_body_lower:
  assumes nonneg: "\<And>u x b. tfidf u x = Inr b \<Longrightarrow> 0 \<le> b"
    and body: "score_body tfidf cfg d t = Inr s"
  shows "0 \<le> s"
proof -
  from body obtain ts cc where ts: "technical_skills (profile cfg) = Some ts"
    and cc: "core_competencies (profile cfg) = Some cc"
    by (auto simp: score_body_def split: option.splits)
  let ?jt = "lower (t @ '' '' @ d)"
  show ?thesis
  proof (cases "tfidf (lower (join_spaces (ts @ cc))) ?jt")
    case (Inr b)
    then have "0 \<le> b" by (rule nonneg)
    then have "0 \<le> b + bonus_score ?jt"
      using bonus_score_nonneg [of ?jt] by arith
    moreover from body ts cc Inr have "s = min (b + bonus_score ?jt) 100"
      by (simp add: score_body_def Let_def)
    ultimately show ?thesis by simp
  next
    case (Inl e)
    with body ts cc have "simple_keyword_match ?jt (ts @ cc) = Inr s"
      by (cases e) (simp_all add: score_body_def Let_def)
    then show ?thesis
      by (simp add: simple_keyword_match_range)
  qed
qed

lemma score_rows_total:
  "score_rows tfidf cfg js =
     Inr (map (\<lambda>j. j\<lparr>match_score :=
                  Some (case score_body tfidf cfg (cell_str (description j)) (title j) of
                          Inl e \<Rightarrow> 0 | Inr s \<Rightarrow> s)\<rparr>) js)"
  by (induction js) (simp_all add: calculate_total)

section \<open>Claims about the match scorer\<close>

text \<open>
  Claim C3. Whatever the title, the description and the profile, the scorer returns an
  integer, and it is at most 100: the sum of the similarity score and the bonus is capped
  at 100, the keyword-overlap fallback lies between 0 and 100, and a failure gives 0.
  The result is not negative as long as the library's similarity score is not, which is
  the condition on the vectorizer.
\<close>

theorem match_score_in_range:
  "(\<exists>s. calculate_job_match_score tfidf cfg d t = Inr s \<and> s \<le> 100
        \<and> ((\<forall>u x b. tfidf u x = Inr b \<longrightarrow> 0 \<le> b) \<longrightarrow> 0 \<le> s))
   \<and> (\<forall>s. simple_keyword_match job_text user_skills = Inr s \<longrightarrow> 0 \<le> s \<and> s \<le> 100)"
proof (intro conjI allI impI)
  show "\<exists>s. calculate_job_match_score tfidf cfg d t = Inr s \<and> s \<le> 100
          \<and> ((\<forall>u x b. tfidf u x = Inr b \<longrightarrow> 0 \<le> b) \<longrightarrow> 0 \<le> s)"
  proof (cases "score_body tfidf cfg d t")
    case (Inl e)
    then show ?thesis by (simp add: calculate_job_match_score_def)
  next
    case (Inr s)
    have "s \<le> 100"
      using Inr by (rule score_body_upper)
    moreover have "0 \<le> s" if "\<forall>u x b. tfidf u x = Inr b \<longrightarrow> 0 \<le> b"
      using that Inr score_body_lower [of tfidf cfg d t s] by blast
    ultimately show ?thesis
      using Inr by (simp add: calculate_job_match_score_def)
  qed
qed (simp_all add: simple_keyword_match_range)

theorem match_score_in_range_witness:
  "calculate_job_match_score example_vectorizer example_profile ''remote'' ''python'' = Inr 38
   \<and> (\<exists>s. calculate_job_match_score example_vectorizer example_profile ''remote'' ''python'' = Inr s
          \<and> 0 \<le> s \<and> s \<le> 100)"
proof -
  have h: "\<forall>u x b. example_vectorizer u x = Inr b \<longrightarrow> 0 \<le> b"
    by (auto simp: example_vectorizer_def split: if_splits option.splits)
  have v: "calculate_job_match_score example_vectorizer example_profile ''remote'' ''python'' = Inr 38"
    by code_simp
  from match_score_in_range [of example_vectorizer example_profile "''remote''" "''python''"] h v
  show ?thesis by blast
qed

text \<open>
  Claim C4, as the code has it. When the vectorizer succeeds with base score \<open>b\<close>, the
  result is \<open>min (b + 5 * n) 100\<close>, where \<open>n\<close> is the number of the ten bonus keywords that
  occur in the lower-cased job text. A longer description never loses a keyword, so the
  result does not decrease as long as the base score of the longer text is not lower.
\<close>

theorem bonus_adds_five_and_is_monotone:
  assumes ts: "technical_skills (profile cfg) = Some ts"
    and cc: "core_competencies (profile cfg) = Some cc"
    and b: "tfidf (lower (join_spaces (ts @ cc))) (lower (t @ '' '' @ d)) = Inr b"
  shows "calculate_job_match_score tfidf cfg d t =
           Inr (min (b + 5 * int (card {k \<in> set bonus_keywords. sublist k (lower (t @ '' '' @ d))})) 100)
         \<and> (\<forall>e. bonus_score (lower (t @ '' '' @ d)) \<le> bonus_score (lower (t @ '' '' @ d @ e)))
         \<and> (\<forall>e b'. tfidf (lower (join_spaces (ts @ cc))) (lower (t @ '' '' @ d @ e)) = Inr b' \<and> b \<le> b'
              \<longrightarrow> (\<exists>s s'. calculate_job_match_score tfidf cfg d t = Inr s
                        \<and> calculate_job_match_score tfidf cfg (d @ e) t = Inr s' \<and> s \<le> s'))"
proof (intro conjI allI impI)
  let ?jt = "lower (t @ '' '' @ d)"
  have s: "calculate_job_match_score tfidf cfg d t = Inr (min (b + bonus_score ?jt) 100)"
    using ts cc b by (simp add: calculate_job_match_score_def score_body_def Let_def)
  then show "calculate_job_match_score tfidf cfg d t =
           Inr (min (b + 5 * int (card {k \<in> set bonus_keywords. sublist k ?jt})) 100)"
    by (simp add: bonus_score_card)
  show "bonus_score ?jt \<le> bonus_score (lower (t @ '' '' @ d @ e))" for e
    using bonus_score_append [of ?jt "lower e"] by (simp add: lower_def)
  fix e b'
  assume h: "tfidf (lower (join_spaces (ts @ cc))) (lower (t @ '' '' @ d @ e)) = Inr b' \<and> b \<le> b'"
  let ?jt' = "lower (t @ '' '' @ d @ e)"
  have s': "calculate_job_match_score tfidf cfg (d @ e) t = Inr (min (b' + bonus_score ?jt') 100)"
    using ts cc h by (simp add: calculate_job_match_score_def score_body_def Let_def)
  have "?jt' = ?jt @ lower e"
    by (simp add: lower_def)
  then have "bonus_score ?jt \<le> bonus_score ?jt'"
    using bonus_score_append [of ?jt "lower e"] by simp
  with h have "min (b + bonus_score ?jt) 100 \<le> min (b' + bonus_score ?jt') 100"
    by auto
  with s s' show "\<exists>s s'. calculate_job_match_score tfidf cfg d t = Inr s
                        \<and> calculate_job_match_score tfidf cfg (d @ e) t = Inr s' \<and> s \<le> s'"
    by blast
qed

theorem bonus_adds_five_and_is_monotone_witness:
  "technical_skills (profile sql_profile) = Some [''SQL'']
   \<and> core_competencies (profile sql_profile) = Some []
   \<and> example_vectorizer (lower (join_spaces ([''SQL''] @ []))) (lower (''Analyst'' @ '' '' @ [])) = Inr 0
   \<and> example_vectorizer (lower (join_spaces ([''SQL''] @ []))) (lower (''Analyst'' @ '' '' @ [] @ ''SQL'')) = Inr 57
   \<and> calculate_job_match_score example_vectorizer sql_profile [] ''Analyst'' = Inr 0
   \<and> calculate_job_match_score example_vectorizer sql_profile ''SQL'' ''Analyst'' = Inr 62"
proof -
  have ts: "technical_skills (profile sql_profile) = Some [''SQL'']"
    and cc: "core_competencies (profile sql_profile) = Some []"
    by (simp_all add: sql_profile_def)
  have b: "example_vectorizer (lower (join_spaces ([''SQL''] @ []))) (lower (''Analyst'' @ '' '' @ [])) = Inr 0"
    by code_simp
  have b': "example_vectorizer (lower (join_spaces ([''SQL''] @ []))) (lower (''Analyst'' @ '' '' @ [] @ ''SQL'')) = Inr 57"
    by code_simp
  have v: "calculate_job_match_score example_vectorizer sql_profile ''SQL'' ''Analyst'' = Inr 62"
    by code_simp
  have none: "{k \<in> set bonus_keywords. sublist k (lower ''Analyst '')} = {}"
proof -
    have "filter (\<lambda>k. py_in k (lower ''Analyst '')) bonus_keywords = []"
      by code_simp
    then show ?thesis
      by (auto simp: py_in_sublist [symmetric] filter_empty_conv)
  qed
  from bonus_adds_five_and_is_monotone
         [of sql_profile "[''SQL'']" "[]" example_vectorizer "''Analyst''" "[]" 0, OF ts cc b] none
  have "calculate_job_match_score example_vectorizer sql_profile [] ''Analyst'' = Inr 0"
    by simp
  with ts cc b b' v show ?thesis by blast
qed

text \<open>
  The base score is computed again from the longer text and can fall by more than the
  five points gained: for the skills \<^verbatim>\<open>Python\<close> and \<^verbatim>\<open>Java\<close> and the title \<^verbatim>\<open>python\<close>,
  the empty description scores 57, and the description \<^verbatim>\<open>remote\<close>, which adds one bonus
  keyword, scores 38. A keyword can also move a job from the fallback to the vectorizer:
  for the skills \<^verbatim>\<open>C\<close> and \<^verbatim>\<open>R\<close> and the title \<^verbatim>\<open>C\<close>, the empty description scores 50 by
  keyword overlap, and the description \<^verbatim>\<open>sql\<close> scores 5.
\<close>

theorem bonus_monotone_counterexample:
  "calculate_job_match_score example_vectorizer example_profile [] ''python'' = Inr 57
   \<and> calculate_job_match_score example_vectorizer example_profile ''remote'' ''python'' = Inr 38
   \<and> bonus_score (lower (''python'' @ '' '' @ [])) = 0
   \<and> bonus_score (lower (''python'' @ '' '' @ ''remote'')) = 5
   \<and> calculate_job_match_score example_vectorizer letters_profile [] ''C'' = Inr 50
   \<and> calculate_job_match_score example_vectorizer letters_profile ''sql'' ''C'' = Inr 5"
  by code_simp

text \<open>
  Claim C6. The scorer always returns a score and never an exception: every failure of
  its body gives 0. In particular, when the vectorizer raises \<open>ValueError\<close> and both
  skill lists are empty, the fallback divides by zero and the result is 0. Scoring the
  rows of a frame therefore never fails.
\<close>

theorem scorer_never_raises:
  "(\<exists>s. calculate_job_match_score tfidf cfg d t = Inr s)
   \<and> (\<forall>e. score_body tfidf cfg d t = Inl e \<longrightarrow> calculate_job_match_score tfidf cfg d t = Inr 0)
   \<and> (technical_skills (profile cfg) = Some [] \<and> core_competencies (profile cfg) = Some []
        \<and> tfidf [] (lower (t @ '' '' @ d)) = Inl ValueError
      \<longrightarrow> score_body tfidf cfg d t = Inl ZeroDivisionError
          \<and> calculate_job_match_score tfidf cfg d t = Inr 0)
   \<and> (\<exists>js'. score_rows tfidf cfg js = Inr js')"
  by (auto simp: calculate_job_match_score_def score_body_def simple_keyword_match_def lower_def
                 score_rows_total split: sum.splits)

theorem scorer_never_raises_witness:
  "technical_skills (profile empty_profile) = Some [] \<and> core_competencies (profile empty_profile) = Some []
   \<and> example_vectorizer [] (lower (''IT'' @ '' '' @ [])) = Inl ValueError
   \<and> score_body example_vectorizer empty_profile [] ''IT'' = Inl ZeroDivisionError
   \<and> calculate_job_match_score example_vectorizer empty_profile [] ''IT'' = Inr 0"
proof -
  have h: "technical_skills (profile empty_profile) = Some [] \<and> core_competencies (profile empty_profile) = Some []
   \<and> example_vectorizer [] (lower (''IT'' @ '' '' @ [])) = Inl ValueError"
    by code_simp
  with scorer_never_raises [of example_vectorizer empty_profile "[]" "''IT''"]
  show ?thesis by blast
qed

section \<open>Facts about the job store\<close>

lemma update_where_id_ids: "(\<And>r. app_id (f r) = app_id r) \<Longrightarrow> map app_id (update_where_id i f tbl) = map app_id tbl"
  by (simp add: update_where_id_def)

lemma fold_update_where_id:
  assumes "distinct sel" and "set sel \<subseteq> set tbl" and "distinct (map app_id tbl)"
    and keep: "\<And>s r. app_id (f s r) = app_id r"
  shows "fold (\<lambda>s. update_where_id (app_id s) (f s)) sel tbl =
           map (\<lambda>r. if r \<in> set sel then f r r else r) tbl"
proof -
  have find_eq: "find (\<lambda>s. app_id s = app_id r) sel = (if r \<in> set sel then Some r else None)"
    if "r \<in> set tbl" for r
  proof (cases "r \<in> set sel")
    case True
    have "\<And>s. s \<in> set sel \<Longrightarrow> app_id s = app_id r \<Longrightarrow> s = r"
      using assms(2,3) that by (meson distinct_map inj_onD subsetD)
    with True show ?thesis
      by (induction sel) auto
  next
    case False
    have "\<And>s. s \<in> set sel \<Longrightarrow> app_id s \<noteq> app_id r"
      using assms(2,3) that False by (metis distinct_map inj_onD subsetD)
    with False show ?thesis
      by (simp add: find_None_iff)
  qed
  have ids: "distinct (map app_id sel)"
    using assms(1,2,3) by (metis distinct_map inj_on_subset)
  have gen: "fold (\<lambda>s. update_where_id (app_id s) (f s)) sel t =
           map (\<lambda>r. case find (\<lambda>s. app_id s = app_id r) sel of None \<Rightarrow> r | Some s \<Rightarrow> f s r) t" for t
    using ids
  proof (induction sel arbitrary: t)
    case Nil
    then show ?case by simp
  next
    case (Cons s sel)
    have "find (\<lambda>x. app_id x = app_id s) sel = None"
      using Cons.prems by (auto simp: find_None_iff image_iff)
    with Cons show ?case
      by (auto simp: update_where_id_def keep)
  qed
  show ?thesis
    unfolding gen by (rule map_cong) (simp_all add: find_eq)
qed

section \<open>Claims about the workflow trigger\<close>

lemma follow_up_needed_not_selected: "status r = ''follow_up_needed'' \<Longrightarrow> \<not> needs_follow_up t r"
  by (simp add: needs_follow_up_def)

lemma check_follow_ups_map:
  assumes "distinct (map app_id tbl)"
  shows "check_follow_ups today tbl =
           map (\<lambda>r. if needs_follow_up today r then mark_follow_up today r else r) tbl"
proof -
  have "distinct tbl"
    using assms by (simp add: distinct_map)
  then have "fold (\<lambda>job. update_where_id (app_id job) (mark_follow_up today))
                  (filter (needs_follow_up today) tbl) tbl =
             map (\<lambda>r. if r \<in> set (filter (needs_follow_up today) tbl) then mark_follow_up today r else r) tbl"
    using assms
    by (intro fold_update_where_id [where f = "\<lambda>s. mark_follow_up today"])
       (simp_all add: mark_follow_up_def)
  then show ?thesis
    unfolding check_follow_ups_def by (simp cong: map_cong)
qed

text \<open>
  Claim C5. On a table whose primary keys are distinct, the follow-up sweep changes
  exactly the rows with status \<^verbatim>\<open>applied\<close>, an application date at least seven days
  before today and no response date: their status becomes \<^verbatim>\<open>follow_up_needed\<close> and
  their follow-up date today, and every other row stays as it is. A second sweep on the
  same day changes nothing, since a row with status \<^verbatim>\<open>follow_up_needed\<close> is never
  selected.
\<close>

theorem follow_up_sweep:
  assumes "distinct (map app_id tbl)"
  shows "check_follow_ups today tbl =
           map (\<lambda>r. if needs_follow_up today r
                     then r\<lparr>status := ''follow_up_needed'', follow_up_date := Some today\<rparr>
                     else r) tbl
         \<and> check_follow_ups today (check_follow_ups today tbl) = check_follow_ups today tbl
         \<and> (\<forall>r. needs_follow_up today r \<longleftrightarrow>
                  status r = ''applied'' \<and> response_date r = None
                  \<and> (\<exists>d. application_date r = Some d \<and> d + 7 \<le> today))
         \<and> (\<forall>r t. status r = ''follow_up_needed'' \<longrightarrow> \<not> needs_follow_up t r)"
proof (intro conjI allI impI)
  let ?g = "\<lambda>r. if needs_follow_up today r then mark_follow_up today r else r"
  show first: "check_follow_ups today tbl =
           map (\<lambda>r. if needs_follow_up today r
                     then r\<lparr>status := ''follow_up_needed'', follow_up_date := Some today\<rparr>
                     else r) tbl"
    using check_follow_ups_map [OF assms, of today] by (simp add: mark_follow_up_def)
  have once: "check_follow_ups today tbl = map ?g tbl"
    by (rule check_follow_ups_map [OF assms])
  have ids: "map app_id (map ?g tbl) = map app_id tbl"
    by (simp add: mark_follow_up_def)
  have "check_follow_ups today (map ?g tbl) = map ?g (map ?g tbl)"
    by (rule check_follow_ups_map) (simp only: ids assms)
  moreover have "?g (?g r) = ?g r" for r
    by (simp add: follow_up_needed_not_selected mark_follow_up_def)
  ultimately show "check_follow_ups today (check_follow_ups today tbl) = check_follow_ups today tbl"
    by (simp add: once)
next
  fix r :: application
  show "needs_follow_up today r \<longleftrightarrow>
          status r = ''applied'' \<and> response_date r = None
          \<and> (\<exists>d. application_date r = Some d \<and> d + 7 \<le> today)"
    by (auto simp: needs_follow_up_def split: option.splits)
next
  fix r :: application and t
  assume "status r = ''follow_up_needed''"
  then show "\<not> needs_follow_up t r"
    by (rule follow_up_needed_not_selected)
qed

theorem follow_up_sweep_witness:
  "distinct (map app_id sweep_example)
   \<and> map status (check_follow_ups 20 sweep_example) = [''follow_up_needed'', ''applied'', ''applied'']
   \<and> map follow_up_date (check_follow_ups 20 sweep_example) = [Some 20, None, None]
   \<and> check_follow_ups 20 (check_follow_ups 20 sweep_example) = check_follow_ups 20 sweep_example"
proof -
  have d: "distinct (map app_id sweep_example)"
    by code_simp
  have s: "map status (check_follow_ups 20 sweep_example) = [''follow_up_needed'', ''applied'', ''applied'']"
    by code_simp
  have f: "map follow_up_date (check_follow_ups 20 sweep_example) = [Some 20, None, None]"
    by code_simp
  from follow_up_sweep [OF d, of 20] d s f show ?thesis
    by blast
qed

lemma get_high_priority_jobs_subset:
  "set (get_high_priority_jobs tbl) \<subseteq> {r \<in> set tbl. status r = ''found'' \<and> 85 \<le> app_match_score r}"
proof -
  have "set (get_high_priority_jobs tbl)
          \<subseteq> set (sort_key (\<lambda>r. - app_match_score r) (sort_key (\<lambda>r. - created_at r)
                 (filter (\<lambda>r. status r = ''found'' \<and> 85 \<le> app_match_score r) tbl)))"
    unfolding get_high_priority_jobs_def by (rule set_take_subset)
  then show ?thesis by auto
qed

lemma get_high_priority_jobs_distinct: "distinct tbl \<Longrightarrow> distinct (get_high_priority_jobs tbl)"
  by (simp add: get_high_priority_jobs_def)

text \<open>
  Claim C2, as the code has it. On a table whose primary keys are distinct, the
  high-priority pass sets every selected job to \<^verbatim>\<open>ready_to_apply\<close> and stores what the
  two generation calls returned, \<open>None\<close> for a call that failed; the other fields of the
  job and the jobs not selected stay as they are. The selected jobs have status
  \<^verbatim>\<open>found\<close> and a score of at least 85, and there are at most ten of them.
\<close>

theorem high_priority_pass_marks_ready:
  assumes "distinct (map app_id tbl)"
  shows "process_high_priority_jobs optimize_cv_for_job generate_cover_letter tbl =
           map (\<lambda>r. if r \<in> set (get_high_priority_jobs tbl)
                     then r\<lparr>status := ''ready_to_apply'', cv_version := optimize_cv_for_job r,
                            cover_letter_path := generate_cover_letter r\<rparr>
                     else r) tbl
         \<and> set (get_high_priority_jobs tbl) \<subseteq> {r \<in> set tbl. status r = ''found'' \<and> 85 \<le> app_match_score r}
         \<and> length (get_high_priority_jobs tbl) \<le> 10"
proof (intro conjI)
  have "distinct tbl"
    using assms by (simp add: distinct_map)
  then have "distinct (get_high_priority_jobs tbl)"
    by (rule get_high_priority_jobs_distinct)
  moreover have "set (get_high_priority_jobs tbl) \<subseteq> set tbl"
    using get_high_priority_jobs_subset [of tbl] by auto
  ultimately have "fold (\<lambda>job. update_where_id (app_id job)
                   (mark_ready (optimize_cv_for_job job) (generate_cover_letter job)))
          (get_high_priority_jobs tbl) tbl =
        map (\<lambda>r. if r \<in> set (get_high_priority_jobs tbl)
                  then mark_ready (optimize_cv_for_job r) (generate_cover_letter r) r else r) tbl"
    using assms
    by (intro fold_update_where_id
          [where f = "\<lambda>s. mark_ready (optimize_cv_for_job s) (generate_cover_letter s)"])
       (simp_all add: mark_ready_def)
  then show "process_high_priority_jobs optimize_cv_for_job generate_cover_letter tbl =
           map (\<lambda>r. if r \<in> set (get_high_priority_jobs tbl)
                     then r\<lparr>status := ''ready_to_apply'', cv_version := optimize_cv_for_job r,
                            cover_letter_path := generate_cover_letter r\<rparr>
                     else r) tbl"
    by (simp add: process_high_priority_jobs_def mark_ready_def)
  show "set (get_high_priority_jobs tbl) \<subseteq> {r \<in> set tbl. status r = ''found'' \<and> 85 \<le> app_match_score r}"
    by (rule get_high_priority_jobs_subset)
  show "length (get_high_priority_jobs tbl) \<le> 10"
    by (simp add: get_high_priority_jobs_def)
qed

theorem high_priority_pass_marks_ready_witness:
  "distinct (map app_id priority_example)
   \<and> get_high_priority_jobs priority_example = [stored 1 ''Analyst_Globex'' ''found'' 90 (Some 10) None]
   \<and> process_high_priority_jobs letter_written letter_written priority_example =
       [(stored 1 ''Analyst_Globex'' ''found'' 90 (Some 10) None)
          \<lparr>status := ''ready_to_apply'',
           cv_version := Some ''cover_letters/cover_letter_Globex.txt'',
           cover_letter_path := Some ''cover_letters/cover_letter_Globex.txt''\<rparr>,
        stored 2 ''Analyst_Initech'' ''found'' 70 (Some 10) None]"
proof -
  have d: "distinct (map app_id priority_example)"
    by code_simp
  have g: "get_high_priority_jobs priority_example = [stored 1 ''Analyst_Globex'' ''found'' 90 (Some 10) None]"
    by code_simp
  from high_priority_pass_marks_ready [OF d, of letter_written letter_written] d g show ?thesis
    by (simp add: priority_example_def letter_written_def stored_def)
qed

text \<open>
  The pass does not test what the calls returned: a job whose CV optimisation failed
  leaves \<^verbatim>\<open>found\<close> all the same, with an empty CV reference.
\<close>

theorem failed_generation_counterexample:
  "map status (process_high_priority_jobs generation_fails letter_written
                 [stored 1 ''Analyst_Globex'' ''found'' 90 (Some 10) None]) = [''ready_to_apply'']
   \<and> map cv_version (process_high_priority_jobs generation_fails letter_written
                 [stored 1 ''Analyst_Globex'' ''found'' 90 (Some 10) None]) = [None]
   \<and> generation_fails (stored 1 ''Analyst_Globex'' ''found'' 90 (Some 10) None) = None"
  by code_simp

section \<open>Facts about saving\<close>

lemma insert_or_ignore_present:
  "make_job_id j \<in> set (map job_id tbl) \<Longrightarrow> insert_or_ignore today now j tbl = (tbl, 0)"
  by (simp add: insert_or_ignore_def)

lemma insert_or_ignore_keys:
  "set (map job_id (fst (insert_or_ignore today now j tbl))) = insert (make_job_id j) (set (map job_id tbl))"
  by (auto simp: insert_or_ignore_def)

lemma insert_or_ignore_distinct:
  "distinct (map job_id tbl) \<Longrightarrow> distinct (map job_id (fst (insert_or_ignore today now j tbl)))"
  by (auto simp: insert_or_ignore_def)

lemma insert_or_ignore_changed:
  "snd (insert_or_ignore today now j tbl) = (if make_job_id j \<in> set (map job_id tbl) then 0 else 1)"
  by (simp add: insert_or_ignore_def)

lemma insert_or_ignore_length:
  "length (fst (insert_or_ignore today now j tbl)) =
     length tbl + (if make_job_id j \<in> set (map job_id tbl) then 0 else 1)"
  by (simp add: insert_or_ignore_def)

lemma save_loop_keys:
  "set (map job_id (fst (save_loop today now js (tbl, tc, c)))) = make_job_id ` set js \<union> set (map job_id tbl)"
proof (induction js arbitrary: tbl tc c)
  case Nil
  then show ?case by simp
next
  case (Cons j js)
  obtain tbl' ch where i: "insert_or_ignore today now j tbl = (tbl', ch)"
    by (cases "insert_or_ignore today now j tbl")
  then have "set (map job_id tbl') = insert (make_job_id j) (set (map job_id tbl))"
    using insert_or_ignore_keys [of today now j tbl] by simp
  with Cons.IH i show ?case by auto
qed

lemma save_loop_distinct:
  "distinct (map job_id tbl) \<Longrightarrow> distinct (map job_id (fst (save_loop today now js (tbl, tc, c))))"
proof (induction js arbitrary: tbl tc c)
  case Nil
  then show ?case by simp
next
  case (Cons j js)
  obtain tbl' ch where i: "insert_or_ignore today now j tbl = (tbl', ch)"
    by (cases "insert_or_ignore today now j tbl")
  then have "distinct (map job_id tbl')"
    using insert_or_ignore_distinct [OF Cons.prems, of today now j] by simp
  with Cons.IH i show ?case by simp
qed

lemma save_loop_all_present:
  "make_job_id ` set js \<subseteq> set (map job_id tbl) \<Longrightarrow> fst (save_loop today now js (tbl, tc, c)) = tbl"
  by (induction js arbitrary: tc c) (simp_all add: insert_or_ignore_present)

lemma save_loop_count_after_change:
  "0 < tc \<Longrightarrow> snd (snd (save_loop today now js (tbl, tc, c))) = c + length js"
proof (induction js arbitrary: tbl tc c)
  case Nil
  then show ?case by simp
next
  case (Cons j js)
  obtain tbl' ch where i: "insert_or_ignore today now j tbl = (tbl', ch)"
    by (cases "insert_or_ignore today now j tbl")
  from Cons.prems have "0 < tc + ch" by simp
  with Cons.IH [of "tc + ch" tbl' "c + 1"] i show ?case by simp
qed

lemma save_loop_count_fresh:
  "snd (snd (save_loop today now js (tbl, 0, c))) =
     c + length (dropWhile (\<lambda>j. make_job_id j \<in> set (map job_id tbl)) js)"
proof (induction js arbitrary: c)
  case Nil
  then show ?case by simp
next
  case (Cons j js)
  show ?case
  proof (cases "make_job_id j \<in> set (map job_id tbl)")
    case True
    then show ?thesis
      using Cons.IH by (simp add: insert_or_ignore_present)
  next
    case False
    obtain tbl' where i: "insert_or_ignore today now j tbl = (tbl', 1)"
      using False by (simp add: insert_or_ignore_def)
    show ?thesis
      using False i save_loop_count_after_change [of 1 today now js tbl' "c + 1"] by simp
  qed
qed

lemma save_loop_length:
  "length (fst (save_loop today now js (tbl, tc, c))) =
     length tbl + card (make_job_id ` set js - set (map job_id tbl))"
proof (induction js arbitrary: tbl tc c)
  case Nil
  then show ?case by simp
next
  case (Cons j js)
  let ?K = "make_job_id ` set js" and ?T = "set (map job_id tbl)" and ?k = "make_job_id j"
  show ?case
  proof (cases "?k \<in> ?T")
    case True
    then have "save_loop today now (j # js) (tbl, tc, c) =
                 save_loop today now js (tbl, tc, if 0 < tc then c + 1 else c)"
      by (simp add: insert_or_ignore_present)
    then have "length (fst (save_loop today now (j # js) (tbl, tc, c))) = length tbl + card (?K - ?T)"
      by (simp only: Cons.IH)
    moreover from True have "insert ?k ?K - ?T = ?K - ?T"
      by blast
    ultimately show ?thesis
      by (simp only: list.set image_insert)
  next
    case False
    obtain tbl' where i: "insert_or_ignore today now j tbl = (tbl', 1)"
      using False by (simp add: insert_or_ignore_def)
    have keys: "set (map job_id tbl') = insert ?k ?T"
      using insert_or_ignore_keys [of today now j tbl] by (simp only: i fst_conv)
    have len: "length tbl' = length tbl + 1"
      using insert_or_ignore_length [of today now j tbl] False by (simp only: i fst_conv if_False)
    have "save_loop today now (j # js) (tbl, tc, c) = save_loop today now js (tbl', tc + 1, c + 1)"
      by (simp add: i)
    then have "length (fst (save_loop today now (j # js) (tbl, tc, c))) =
                 length tbl' + card (?K - set (map job_id tbl'))"
      by (simp only: Cons.IH)
    also have "\<dots> = length tbl + 1 + card (?K - insert ?k ?T)"
      by (simp only: keys len)
    also have "\<dots> = length tbl + card (insert ?k (?K - insert ?k ?T))"
      by (subst card_insert_disjoint) simp_all
    also have "insert ?k (?K - insert ?k ?T) = insert ?k ?K - ?T"
      using False by blast
    finally show ?thesis
      by (simp only: list.set image_insert)
  qed
qed

lemma save_fst: "fst (save_jobs_to_database today now jobs tbl) = fst (save_loop today now jobs (tbl, 0, 0))"
  by (cases jobs) (auto simp: save_jobs_to_database_def split: prod.splits)

lemma save_snd:
  "jobs \<noteq> [] \<Longrightarrow> snd (save_jobs_to_database today now jobs tbl) = Some (snd (snd (save_loop today now jobs (tbl, 0, 0))))"
  by (auto simp: save_jobs_to_database_def split: prod.splits)

lemma save_twice:
  "fst (save_jobs_to_database today' now' jobs (fst (save_jobs_to_database today now jobs tbl))) =
     fst (save_jobs_to_database today now jobs tbl)"
  unfolding save_fst
  by (rule save_loop_all_present) (use save_loop_keys [of today now jobs tbl 0 0] in blast)

lemma filter_jobs_total: "\<exists>out. filter_jobs tie tfidf cfg df = Inr out"
  by (simp add: filter_jobs_def Let_def score_rows_total)

section \<open>Claims about saving\<close>

text \<open>
  Claim C9. Saving a batch a second time, on whatever day, leaves the table as the first
  save left it: a record whose key is stored is skipped with no field changed. So one
  ingestion of a raw batch followed by a second ingestion of the same batch gives the
  table of the first.
\<close>

theorem ingest_twice:
  "fst (save_jobs_to_database today' now' jobs (fst (save_jobs_to_database today now jobs tbl))) =
     fst (save_jobs_to_database today now jobs tbl)
   \<and> (make_job_id j \<in> set (map job_id tbl) \<longrightarrow> insert_or_ignore today now j tbl = (tbl, 0))
   \<and> (\<exists>tbl1. ingest tie tfidf cfg today now raw tbl = Inr tbl1
              \<and> ingest tie tfidf cfg today' now' raw tbl1 = Inr tbl1)"
proof (intro conjI impI)
  show "fst (save_jobs_to_database today' now' jobs (fst (save_jobs_to_database today now jobs tbl))) =
     fst (save_jobs_to_database today now jobs tbl)"
    by (rule save_twice)
  show "insert_or_ignore today now j tbl = (tbl, 0)" if "make_job_id j \<in> set (map job_id tbl)"
    using that by (rule insert_or_ignore_present)
  obtain out where out: "filter_jobs tie tfidf cfg (clean_job_data raw) = Inr out"
    using filter_jobs_total by blast
  then show "\<exists>tbl1. ingest tie tfidf cfg today now raw tbl = Inr tbl1
              \<and> ingest tie tfidf cfg today' now' raw tbl1 = Inr tbl1"
    by (simp add: ingest_def save_twice)
qed

theorem ingest_twice_witness:
  "make_job_id (scored_job ''Analyst'' ''Acme'' 62)
     \<in> set (map job_id [stored 1 ''Analyst_Acme'' ''found'' 62 (Some 100) None])
   \<and> insert_or_ignore 100 0 (scored_job ''Analyst'' ''Acme'' 62)
        [stored 1 ''Analyst_Acme'' ''found'' 62 (Some 100) None]
      = ([stored 1 ''Analyst_Acme'' ''found'' 62 (Some 100) None], 0)
   \<and> (\<exists>tbl1. ingest insertion_order example_vectorizer sql_profile 100 0 two_analysts [] = Inr tbl1
              \<and> ingest insertion_order example_vectorizer sql_profile 101 5 two_analysts tbl1 = Inr tbl1
              \<and> map app_match_score tbl1 = [62, 62])"
proof -
  have k: "make_job_id (scored_job ''Analyst'' ''Acme'' 62)
     \<in> set (map job_id [stored 1 ''Analyst_Acme'' ''found'' 62 (Some 100) None])"
    by code_simp
  obtain tbl1 where t: "ingest insertion_order example_vectorizer sql_profile 100 0 two_analysts [] = Inr tbl1"
    and t': "ingest insertion_order example_vectorizer sql_profile 101 5 two_analysts tbl1 = Inr tbl1"
    using ingest_twice [of 101 5 "[]" 100 0 "[]" "scored_job ''Analyst'' ''Acme'' 62"
                           insertion_order example_vectorizer sql_profile two_analysts]
    by (elim conjE exE)
  have "map_sum id (map app_match_score) (ingest insertion_order example_vectorizer sql_profile 100 0 two_analysts [])
          = Inr [62, 62]"
    by code_simp
  with t have s: "map app_match_score tbl1 = [62, 62]"
    by simp
  from k
    ingest_twice [of 101 5 "[]" 100 0 "[stored 1 ''Analyst_Acme'' ''found'' 62 (Some 100) None]"
                     "scored_job ''Analyst'' ''Acme'' 62" insertion_order example_vectorizer sql_profile two_analysts]
  have i: "insert_or_ignore 100 0 (scored_job ''Analyst'' ''Acme'' 62)
          [stored 1 ''Analyst_Acme'' ''found'' 62 (Some 100) None]
        = ([stored 1 ''Analyst_Acme'' ''found'' 62 (Some 100) None], 0)"
    by (elim conjE impE) assumption
  show ?thesis
    by (intro conjI exI [of _ tbl1] k i t t' s)
qed

text \<open>
  Claim C10. The count returned by the save step is the number of records from the first
  one that inserts a row to the end of the batch, because the test looks at the
  connection's running total of changes. When the first record inserts a row, the count
  is the size of the batch, whereas the number of rows inserted is the number of
  distinct new keys.
\<close>

theorem new_jobs_count_is_cumulative:
  assumes "jobs \<noteq> []"
  shows "snd (save_jobs_to_database today now jobs tbl) =
           Some (length (dropWhile (\<lambda>j. make_job_id j \<in> set (map job_id tbl)) jobs))
         \<and> (make_job_id (hd jobs) \<notin> set (map job_id tbl)
              \<longrightarrow> snd (save_jobs_to_database today now jobs tbl) = Some (length jobs))
         \<and> length (fst (save_jobs_to_database today now jobs tbl)) =
             length tbl + card (make_job_id ` set jobs - set (map job_id tbl))"
proof (intro conjI impI)
  show c: "snd (save_jobs_to_database today now jobs tbl) =
           Some (length (dropWhile (\<lambda>j. make_job_id j \<in> set (map job_id tbl)) jobs))"
    using save_loop_count_fresh [of today now jobs tbl 0] by (simp add: save_snd [OF assms])
  show "snd (save_jobs_to_database today now jobs tbl) = Some (length jobs)"
    if "make_job_id (hd jobs) \<notin> set (map job_id tbl)"
  proof -
    from assms that have "dropWhile (\<lambda>j. make_job_id j \<in> set (map job_id tbl)) jobs = jobs"
      by (cases jobs) simp_all
    with c show ?thesis by simp
  qed
  show "length (fst (save_jobs_to_database today now jobs tbl)) =
             length tbl + card (make_job_id ` set jobs - set (map job_id tbl))"
    by (simp only: save_fst save_loop_length)
qed

theorem new_jobs_count_is_cumulative_witness:
  "[scored_job ''Analyst'' ''Acme'' 62, scored_job ''Analyst'' ''Acme'' 62] \<noteq> []
   \<and> make_job_id (hd [scored_job ''Analyst'' ''Acme'' 62, scored_job ''Analyst'' ''Acme'' 62])
        \<notin> set (map job_id [])
   \<and> snd (save_jobs_to_database 100 0
             [scored_job ''Analyst'' ''Acme'' 62, scored_job ''Analyst'' ''Acme'' 62] []) = Some 2
   \<and> length (fst (save_jobs_to_database 100 0
             [scored_job ''Analyst'' ''Acme'' 62, scored_job ''Analyst'' ''Acme'' 62] [])) = 1"
proof -
  have ne: "[scored_job ''Analyst'' ''Acme'' 62, scored_job ''Analyst'' ''Acme'' 62] \<noteq> []"
    by simp
  have l: "length (fst (save_jobs_to_database 100 0
             [scored_job ''Analyst'' ''Acme'' 62, scored_job ''Analyst'' ''Acme'' 62] [])) = 1"
    by code_simp
  from new_jobs_count_is_cumulative [OF ne, of 100 0 "[]"] l show ?thesis
    by simp
qed

text \<open>
  Claim C1, as the code has it. The key of a record is the first 50 characters of its
  title, an underscore and the first 30 characters of its company, with every space
  replaced by an underscore and the case of the letters kept. Two records of a batch
  whose titles agree on the first 50 characters and whose companies agree on the first
  30, letter for letter, have the same key, and after the batch is saved into a table
  with distinct keys exactly one row carries that key.
\<close>

theorem same_prefixes_one_row:
  assumes "distinct (map job_id tbl)" and "j1 \<in> set jobs" and "j2 \<in> set jobs"
    and "take 50 (title j1) = take 50 (title j2)" and "take 30 (company j1) = take 30 (company j2)"
  shows "make_job_id j1 = make_job_id j2
         \<and> make_job_id j1 = replace_spaces (take 50 (title j1) @ ''_'' @ take 30 (company j1))
         \<and> length (filter (\<lambda>r. job_id r = make_job_id j1)
                     (fst (save_jobs_to_database today now jobs tbl))) = 1"
proof (intro conjI)
  show "make_job_id j1 = make_job_id j2"
    using assms(4,5) by (simp add: make_job_id_def)
  show "make_job_id j1 = replace_spaces (take 50 (title j1) @ ''_'' @ take 30 (company j1))"
    by (simp add: make_job_id_def)
  let ?out = "fst (save_jobs_to_database today now jobs tbl)"
  have d: "distinct (map job_id ?out)"
    unfolding save_fst by (rule save_loop_distinct [OF assms(1)])
  have m: "make_job_id j1 \<in> set (map job_id ?out)"
    unfolding save_fst using save_loop_keys [of today now jobs tbl 0 0] assms(2) by blast
  have "length (filter (\<lambda>r. job_id r = make_job_id j1) ?out) =
          length (filter (\<lambda>k. k = make_job_id j1) (map job_id ?out))"
    by (simp add: filter_map comp_def)
  also have "\<dots> = card ({k. k = make_job_id j1} \<inter> set (map job_id ?out))"
    by (rule distinct_length_filter [OF d])
  also have "{k. k = make_job_id j1} \<inter> set (map job_id ?out) = {make_job_id j1}"
    using m by blast
  finally show "length (filter (\<lambda>r. job_id r = make_job_id j1) ?out) = 1"
    by simp
qed

theorem same_prefixes_one_row_witness:
  "distinct (map job_id [stored 1 ''Analyst_Globex'' ''found'' 90 (Some 10) None])
   \<and> take 50 (title (scored_job ''Senior Analyst'' ''Acme'' 62)) = take 50 (title (scored_job ''Senior Analyst'' ''Acme'' 75))
   \<and> take 30 (company (scored_job ''Senior Analyst'' ''Acme'' 62)) = take 30 (company (scored_job ''Senior Analyst'' ''Acme'' 75))
   \<and> make_job_id (scored_job ''Senior Analyst'' ''Acme'' 62) = ''Senior_Analyst_Acme''
   \<and> length (filter (\<lambda>r. job_id r = make_job_id (scored_job ''Senior Analyst'' ''Acme'' 62))
         (fst (save_jobs_to_database 100 0
                [scored_job ''Senior Analyst'' ''Acme'' 62, scored_job ''Senior Analyst'' ''Acme'' 75]
                [stored 1 ''Analyst_Globex'' ''found'' 90 (Some 10) None]))) = 1"
proof -
  have d: "distinct (map job_id [stored 1 ''Analyst_Globex'' ''found'' 90 (Some 10) None])"
    by simp
  have t: "take 50 (title (scored_job ''Senior Analyst'' ''Acme'' 62)) = take 50 (title (scored_job ''Senior Analyst'' ''Acme'' 75))"
    and c: "take 30 (company (scored_job ''Senior Analyst'' ''Acme'' 62)) = take 30 (company (scored_job ''Senior Analyst'' ''Acme'' 75))"
    by (simp_all add: scored_job_def)
  have k: "make_job_id (scored_job ''Senior Analyst'' ''Acme'' 62) = ''Senior_Analyst_Acme''"
    by code_simp
  have m1: "scored_job ''Senior Analyst'' ''Acme'' 62
               \<in> set [scored_job ''Senior Analyst'' ''Acme'' 62, scored_job ''Senior Analyst'' ''Acme'' 75]"
    and m2: "scored_job ''Senior Analyst'' ''Acme'' 75
               \<in> set [scored_job ''Senior Analyst'' ''Acme'' 62, scored_job ''Senior Analyst'' ''Acme'' 75]"
    by simp_all
  from same_prefixes_one_row [OF d m1 m2 t c, of 100 0]
  have l: "length (filter (\<lambda>r. job_id r = make_job_id (scored_job ''Senior Analyst'' ''Acme'' 62))
         (fst (save_jobs_to_database 100 0
                [scored_job ''Senior Analyst'' ''Acme'' 62, scored_job ''Senior Analyst'' ''Acme'' 75]
                [stored 1 ''Analyst_Globex'' ''found'' 90 (Some 10) None]))) = 1"
    by (rule conjunct2 [THEN conjunct2])
  show ?thesis
    by (intro conjI d t c k l)
qed

text \<open>
  The key keeps the case of the letters: two postings that differ only in the case of
  the title are both kept by the cleaning step and stored as two rows, under two keys,
  neither of them in lower case.
\<close>

theorem case_variants_counterexample:
  "lower ''Analyst'' = lower ''analyst''
   \<and> map raw_title (drop_duplicates [] (rows two_analysts)) = [Some ''Analyst'', Some ''analyst'']
   \<and> map_sum id (map job_id) (ingest insertion_order example_vectorizer sql_profile 100 0 two_analysts [])
       = Inr [''Analyst_Acme'', ''analyst_Acme'']"
  by code_simp

section \<open>Facts about filtering and ranking\<close>





lemma sort_values_desc_mset: "mset (sort_values_desc tie js) = mset js"
proof -
  let ?ranked = "sort_key (\<lambda>p. tie (map score_of js) (fst p)) (enumerate 0 js)"
  have "mset (sort_values_desc tie js) = image_mset snd (mset (sort_key (\<lambda>p. - score_of (snd p)) ?ranked))"
    by (simp add: sort_values_desc_def)
  also have "\<dots> = image_mset snd (mset (enumerate 0 js))"
    by simp
  also have "\<dots> = mset (map snd (enumerate 0 js))"
    by (simp only: mset_map)
  also have "\<dots> = mset js"
    by (simp only: map_snd_enumerate)
  finally show ?thesis .
qed

lemma sort_values_desc_set: "set (sort_values_desc tie js) = set js"
  using sort_values_desc_mset [of tie js] by (rule mset_eq_setD)





lemma contains_any_iff:
  "words \<noteq> [] \<Longrightarrow> contains_any words s \<longleftrightarrow> (\<exists>w \<in> set words. sublist (lower w) (lower s))"
  by (simp add: contains_any_def list_ex_iff py_in_sublist)

lemma contains_any_empty: "contains_any [] s"
  by (simp add: contains_any_def)

lemma score_of_update: "score_of (j\<lparr>match_score := Some s\<rparr>) = s"
  by (simp add: score_of_def)

text \<open>
  With a location column, a description column and a configured blacklist, the rows that
  come out are the rows of the frame that pass the three tests, each with its score.
\<close>

lemma filter_jobs_keeps:
  assumes "filter_jobs tie tfidf cfg df = Inr out" and "rows df \<noteq> []"
    and "location_col df" and "description_col df"
    and "blacklisted_companies (criteria cfg) = Some blacklist"
  shows "set (rows out) =
           (\<lambda>j. j\<lparr>match_score :=
                    Some (case score_body tfidf cfg (cell_str (description j)) (title j) of
                            Inl e \<Rightarrow> 0 | Inr s \<Rightarrow> s)\<rparr>) `
           {j \<in> set (rows df).
              location_matches (locations (criteria cfg)) j
              \<and> \<not> contains_any blacklist (company j)
              \<and> (case min_match_score (criteria cfg) of None \<Rightarrow> 60 | Some m \<Rightarrow> m)
                  \<le> (case score_body tfidf cfg (cell_str (description j)) (title j) of
                       Inl e \<Rightarrow> 0 | Inr s \<Rightarrow> s)}"
proof -
  let ?sc = "\<lambda>j. case score_body tfidf cfg (cell_str (description j)) (title j) of
                   Inl e \<Rightarrow> 0 | Inr s \<Rightarrow> s"
  let ?min = "case min_match_score (criteria cfg) of None \<Rightarrow> 60 | Some m \<Rightarrow> m"
  let ?kept = "filter (\<lambda>j. \<not> contains_any blacklist (company j))
                 (filter (location_matches (locations (criteria cfg))) (rows df))"
  from assms have "Inr (df\<lparr>rows := sort_values_desc tie (filter (\<lambda>j. ?min \<le> score_of j)
                     (map (\<lambda>j. j\<lparr>match_score := Some (?sc j)\<rparr>) ?kept))\<rparr>) = (Inr out :: py_error + job frame)"
    by (simp add: filter_jobs_def Let_def score_rows_total)
  then have "rows out = sort_values_desc tie (filter (\<lambda>j. ?min \<le> score_of j)
                     (map (\<lambda>j. j\<lparr>match_score := Some (?sc j)\<rparr>) ?kept))"
    by auto
  then have "set (rows out) = {j' \<in> (\<lambda>j. j\<lparr>match_score := Some (?sc j)\<rparr>) ` set ?kept. ?min \<le> score_of j'}"
    by (simp add: sort_values_desc_set)
  also have "\<dots> = (\<lambda>j. j\<lparr>match_score := Some (?sc j)\<rparr>) ` {j \<in> set ?kept. ?min \<le> ?sc j}"
    by (auto simp: score_of_update)
  also have "{j \<in> set ?kept. ?min \<le> ?sc j} =
               {j \<in> set (rows df). location_matches (locations (criteria cfg)) j
                  \<and> \<not> contains_any blacklist (company j) \<and> ?min \<le> ?sc j}"
    by auto
  finally show ?thesis .
qed

text \<open>
  The criteria of \<open>example_profile\<close> are the locations \<^verbatim>\<open>Remote\<close> and \<^verbatim>\<open>Warsaw\<close>, the
  blacklist \<^verbatim>\<open>Acme\<close> and the minimum score 70. With a base score of 60, the five jobs
  below score 80, 90, 65, 75 and 80. The first is dropped for its company, the second
  for its location, the third for its score; the fourth is kept. The fifth has the
  blacklisted word in its location only and is kept: the blacklist looks at the company.
\<close>

lemma spec_filter_examples:
  "map_sum id (map company \<circ> rows)
     (filter_jobs insertion_order flat_vectorizer example_profile
        (cleaned_frame
           [candidate ''Analyst'' ''Acme Corp'' ''Acme Remote Office'' ''sql crm senior process'' 1,
            candidate ''Analyst'' ''Initech'' ''Krakow'' ''sql crm senior process healthcare stakeholder'' 1,
            candidate ''Analyst'' ''Hooli'' ''Remote'' ''sql'' 1,
            candidate ''Analyst'' ''Globex'' ''Warsaw'' ''sql crm senior'' 1,
            candidate ''Analyst'' ''Umbrella'' ''Acme Remote Office'' ''sql crm senior process'' 1]))
   = Inr [''Umbrella'', ''Globex'']"
  by code_simp

lemma spec_filter_example_scores:
  "map (\<lambda>d. calculate_job_match_score flat_vectorizer example_profile d ''Analyst'')
     [''sql crm senior process'', ''sql crm senior process healthcare stakeholder'', ''sql'', ''sql crm senior'']
   = [Inr 80, Inr 90, Inr 65, Inr 75]"
  by code_simp

section \<open>Claims about filtering and ranking\<close>




text \<open>
  Claim C7 at the empty blacklist. A job at Globex with location \<^verbatim>\<open>Remote\<close> and score 62
  passes the filter when no blacklist is configured (the minimum score is the default
  60). With the empty blacklist of the default configuration the pattern joined from
  the list is empty and is found in every company name, so the same job is dropped,
  although its company contains no blacklisted text.
\<close>

theorem empty_blacklist_drops_every_job:
  "blacklisted_companies (criteria sql_profile) = None
   \<and> map_sum id (map company \<circ> rows)
        (filter_jobs insertion_order example_vectorizer sql_profile
           (cleaned_frame [candidate ''Analyst'' ''Globex'' ''Remote'' ''SQL'' 1])) = Inr [''Globex'']
   \<and> blacklisted_companies (criteria empty_blacklist_profile) = Some []
   \<and> map_sum id rows
        (filter_jobs insertion_order example_vectorizer empty_blacklist_profile
           (cleaned_frame [candidate ''Analyst'' ''Globex'' ''Remote'' ''SQL'' 1])) = Inr []"
  by code_simp

end
